theory Spec2Isabelle
  imports Complex_Main
begin

section \<open>Aerodynamic lift simulator: data model\<close>

text \<open>
  The simulator is a single React component (\<^verbatim>\<open>App.tsx\<close>) whose state is a set of
  \<^verbatim>\<open>useState\<close> cells, updated by a render-synchronised frame callback (\<^verbatim>\<open>loop\<close>), a 50 ms
  interval callback (the auto-mission sequencer) and a handful of event handlers.
  The state cells become one record, every callback becomes a function from the state at
  the time of the call to the state after it.

  The records take the type of numbers as a parameter, and the numeric code is given over
  two types of numbers. Over \<^typ>\<open>real\<close> the arithmetic is exact: this is the program on
  finite numbers up to rounding, and it is where the control flow, the constants and the
  exact values of the updates are stated. Over \<open>jsnum\<close> (further down) the arithmetic
  has the infinities, NaN, overflow and underflow of JavaScript's numbers: this is where
  statements about every input, and about what is divided by, are made. In the real-valued
  definitions the denominator and the radicand of \<^verbatim>\<open>requiredTakeoffSpeed\<close> are definitions
  of their own (in HOL, \<open>x / 0 = 0\<close> and \<open>sqrt\<close> is odd, so nothing can be read off the
  quotient).
\<close>

datatype WingType = Symmetric | Cambered | FlatBottom | Thin | Airbus | Stealth

record 'n FlightParams =
  weight :: 'n
  wingSpan :: 'n
  chordLength :: 'n
  velocity :: 'n
  headWind :: 'n
  airDensity :: 'n
  angleOfAttack :: 'n
  wingType :: WingType

record 'n SimulationResults =
  liftForce :: 'n
  dragForce :: 'n
  requiredTakeoffSpeed :: 'n
  isFlying :: bool
  pressureTop :: 'n
  pressureBottom :: 'n
  velocityTop :: 'n
  velocityBottom :: 'n
  resultsAltitude :: 'n

text \<open>
  The state cells of \<^verbatim>\<open>App\<close> that the simulation reads or writes. \<open>lastTime\<close> is
  \<^verbatim>\<open>lastTimeRef.current\<close>. The cells for zoom, sound and the analysis text do not
  take part in any transition below and are left out.
\<close>

record 'n App =
  params :: "'n FlightParams"
  altitude :: 'n
  distance :: 'n
  flightTime :: 'n
  autoThrottle :: bool
  isPaused :: bool
  isAltHold :: bool
  isLanding :: bool
  landingStatus :: string
  lastTime :: 'n

definition GRAVITY :: real where
  "GRAVITY = 9.80665"

definition SEA_LEVEL_AIR_DENSITY :: real where
  "SEA_LEVEL_AIR_DENSITY = 1.225"

definition MAX_VELOCITY :: real where
  "MAX_VELOCITY = 650"

definition initialParams :: "real FlightParams" where
  "initialParams =
     \<lparr> weight = 575000, wingSpan = 79.75, chordLength = 10.6, velocity = 0, headWind = 0,
       airDensity = SEA_LEVEL_AIR_DENSITY, angleOfAttack = 4, wingType = Airbus \<rparr>"

definition initialApp :: "real App" where
  "initialApp =
     \<lparr> params = initialParams, altitude = 0, distance = 0, flightTime = 0,
       autoThrottle = False, isPaused = False, isAltHold = False, isLanding = False,
       landingStatus = '''', lastTime = 0 \<rparr>"

section \<open>Environment and aerodynamic model\<close>

definition currentAirDensity :: "real \<Rightarrow> real" where
  "currentAirDensity alt =
     (let lapseRate = 0.00008 in max 0.35 (SEA_LEVEL_AIR_DENSITY - alt * lapseRate))"

text \<open>The chain of \<^verbatim>\<open>if (params.wingType === ...) baseCl = ...\<close> after \<^verbatim>\<open>let baseCl = 0.45\<close>.\<close>

definition baseCl :: "WingType \<Rightarrow> real" where
  "baseCl wt =
     (if wt = Stealth then 0.12
      else if wt = Thin then 0.15
      else if wt = FlatBottom then 0.55
      else if wt = Symmetric then 0.0
      else 0.45)"

text \<open>The variable \<^verbatim>\<open>cl\<close> of \<^verbatim>\<open>results\<close>, after its last assignment.\<close>

definition liftCoefficient :: "real FlightParams \<Rightarrow> real" where
  "liftCoefficient p =
     (let aoaRad = (angleOfAttack p * pi) / 180;
          cl = 2 * pi * aoaRad + baseCl (wingType p);
          cl = (if angleOfAttack p > 16
                then cl * max 0 (1 - (angleOfAttack p - 16) * 0.2)
                else cl)
      in max 0 cl)"

text \<open>Denominator and radicand of \<^verbatim>\<open>requiredTakeoffSpeed\<close>.\<close>

definition takeoffDenominator :: "real FlightParams \<Rightarrow> real \<Rightarrow> real" where
  "takeoffDenominator p alt =
     currentAirDensity alt * (wingSpan p * chordLength p) * max 0.1 (liftCoefficient p)"

definition takeoffRadicand :: "real FlightParams \<Rightarrow> real \<Rightarrow> real" where
  "takeoffRadicand p alt = (2 * (weight p * GRAVITY)) / takeoffDenominator p alt"

definition results :: "real FlightParams \<Rightarrow> real \<Rightarrow> real SimulationResults" where
  "results p alt =
     (let s = wingSpan p * chordLength p;
          totalAirspeed = velocity p + headWind p;
          cl = liftCoefficient p;
          liftForce = 0.5 * currentAirDensity alt * totalAirspeed ^ 2 * s * cl;
          weightForce = weight p * GRAVITY;
          requiredTakeoffSpeed = sqrt (takeoffRadicand p alt) - headWind p
      in \<lparr> liftForce = liftForce,
           dragForce = liftForce * (if totalAirspeed > 250 then 0.15 else 0.05),
           requiredTakeoffSpeed = requiredTakeoffSpeed,
           isFlying = (liftForce > weightForce \<and> totalAirspeed > 25),
           pressureTop = - 0.5 * currentAirDensity alt * ((totalAirspeed * 1.2) ^ 2 - totalAirspeed ^ 2),
           pressureBottom = - 0.5 * currentAirDensity alt * ((totalAirspeed * 0.8) ^ 2 - totalAirspeed ^ 2),
           velocityTop = totalAirspeed * 1.2,
           velocityBottom = totalAirspeed * 0.8,
           resultsAltitude = alt \<rparr>)"

section \<open>The frame callback\<close>

definition massDamping :: "real FlightParams \<Rightarrow> real" where
  "massDamping p = max 10000 (weight p / 25)"

definition climbRate :: "real App \<Rightarrow> real" where
  "climbRate st =
     (let weightForce = weight (params st) * GRAVITY;
          netForce = liftForce (results (params st) (altitude st)) - weightForce
      in netForce / massDamping (params st))"

text \<open>The updater passed to \<^verbatim>\<open>setAltitude\<close>; \<open>rate\<close>, \<open>dt\<close> and \<open>auto\<close> are the
  values of \<^verbatim>\<open>climbRate\<close>, \<^verbatim>\<open>dt\<close> and \<^verbatim>\<open>autoThrottle\<close> it closes over.\<close>

definition updateAltitude :: "real \<Rightarrow> real \<Rightarrow> bool \<Rightarrow> real \<Rightarrow> real" where
  "updateAltitude rate dt auto prev =
     (let next = prev + rate * dt in
      if next \<le> 0 then 0
      else if next \<ge> 10000 \<and> auto then 10000
      else next)"

text \<open>
  The updater of the altitude-hold branch: \<open>c\<close> is the state the callback closes over
  (\<^verbatim>\<open>params\<close>, \<^verbatim>\<open>currentAirDensity\<close>), \<open>prev\<close> the parameters the updater receives.
\<close>

definition targetClDenominator :: "real App \<Rightarrow> real" where
  "targetClDenominator c =
     (let totalAirspeed = velocity (params c) + headWind (params c);
          s = wingSpan (params c) * chordLength (params c)
      in 0.5 * currentAirDensity (altitude c) * totalAirspeed ^ 2 * s)"

definition targetAoADeg :: "real App \<Rightarrow> real" where
  "targetAoADeg c =
     (let weightForce = weight (params c) * GRAVITY;
          targetCl = weightForce / targetClDenominator c
      in ((targetCl - (if wingType (params c) = Airbus then 0.45 else 0.2)) / (2 * pi)) * (180 / pi))"

definition altHoldUpdater :: "real App \<Rightarrow> real FlightParams \<Rightarrow> real FlightParams" where
  "altHoldUpdater c prev =
     (let clampedAoA = min 15 (max (- 5) (targetAoADeg c))
      in prev\<lparr> angleOfAttack := angleOfAttack prev + (clampedAoA - angleOfAttack prev) * 0.02 \<rparr>)"

text \<open>
  The updater of the autoland branch. It returns the new parameters together with the
  values of \<^verbatim>\<open>isLanding\<close> and \<^verbatim>\<open>landingStatus\<close> after the calls of
  \<^verbatim>\<open>setIsLanding\<close> and \<^verbatim>\<open>setLandingStatus\<close> it makes.
\<close>

definition landingUpdater :: "real App \<Rightarrow> real FlightParams \<Rightarrow> real FlightParams \<times> bool \<times> string" where
  "landingUpdater c prev =
     (let targetApproachSpeed = 75;
          targetDescentRate = (if altitude c > 50 then - 6 else - 2);
          weightForce = weight (params c) * GRAVITY;
          nextVel = velocity prev;
          nextAoA = angleOfAttack prev;
          currentVSI = (liftForce (results (params c) (altitude c)) - weightForce) / massDamping (params c);
          nextVel = (if nextVel > targetApproachSpeed + 2 then nextVel - 0.4
                     else if nextVel < targetApproachSpeed - 2 then nextVel + 0.4
                     else nextVel)
      in if altitude c > 15 then
           (let vsiError = targetDescentRate - currentVSI;
                nextAoA = nextAoA + vsiError * 0.08
            in (prev\<lparr> velocity := nextVel, angleOfAttack := max (- 2) (min 15 nextAoA) \<rparr>,
                isLanding c, ''GLIDESLOPE INTERCEPT''))
         else if altitude c > 0.5 then
           (let nextAoA = nextAoA + (8.5 - nextAoA) * 0.1;
                nextVel = nextVel * 0.99
            in (prev\<lparr> velocity := nextVel, angleOfAttack := max (- 2) (min 15 nextAoA) \<rparr>,
                isLanding c, ''FLARE / REDUCE THRUST''))
         else
           (let nextAoA = 2;
                nextVel = max 0 (nextVel - 2.5)
            in (prev\<lparr> velocity := nextVel, angleOfAttack := max (- 2) (min 15 nextAoA) \<rparr>,
                if nextVel = 0 then False else isLanding c,
                if nextVel = 0 then '''' else ''TOUCHDOWN / BRAKING'')))"

text \<open>The value of \<^verbatim>\<open>dt\<close> in a frame that is not paused:
  \<^verbatim>\<open>if (!lastTimeRef.current) lastTimeRef.current = time; dt = (time - lastTimeRef.current) / 1000\<close>.\<close>

definition elapsed :: "real \<Rightarrow> real App \<Rightarrow> real" where
  "elapsed time st =
     (let last = (if lastTime st = 0 then time else lastTime st)
      in (time - last) / 1000)"

text \<open>
  One call of \<^verbatim>\<open>loop(time)\<close>. All reads are of the state \<open>st\<close> the callback closes
  over; the updaters of \<^verbatim>\<open>setParams\<close> run in the order of their calls.
\<close>

definition loop :: "real \<Rightarrow> real App \<Rightarrow> real App" where
  "loop time st =
     (if \<not> isPaused st then
        (let dt = elapsed time st;
             res = results (params st) (altitude st);
             p1 = (if isAltHold st \<and> \<not> isLanding st \<and> isFlying res
                   then (if velocity (params st) + headWind (params st) > 10
                         then altHoldUpdater st (params st) else params st)
                   else params st);
             l = (if isLanding st then landingUpdater st p1
                  else (p1, isLanding st, landingStatus st))
         in st\<lparr> lastTime := time,
                altitude := updateAltitude (climbRate st) dt (autoThrottle st) (altitude st),
                distance := distance st + velocity (params st) * dt,
                flightTime := (if velocity (params st) > 0 \<or> isFlying res
                               then flightTime st + dt else flightTime st),
                params := fst l,
                isLanding := fst (snd l),
                landingStatus := snd (snd l) \<rparr>)
      else st\<lparr> lastTime := 0 \<rparr>)"

section \<open>The auto-mission interval callback\<close>

text \<open>One firing of the 50 ms interval; the interval exists only while
  \<^verbatim>\<open>autoThrottle && !isPaused && !isLanding\<close>.\<close>

definition autoMissionTick :: "real App \<Rightarrow> real App" where
  "autoMissionTick st =
     (if autoThrottle st \<and> \<not> isPaused st \<and> \<not> isLanding st then
        (let targetCruiseSpeed = 700 / 3.6;
             targetClimbAltitude = 10000;
             p = params st;
             nextVel = velocity p;
             nextAoA = angleOfAttack p
         in if altitude st < 50 then
              st\<lparr> params := p\<lparr> velocity := min (nextVel + 1.5) MAX_VELOCITY,
                                angleOfAttack := (if isFlying (results (params st) (altitude st))
                                                  then 12 else nextAoA) \<rparr> \<rparr>
            else if altitude st < targetClimbAltitude - 100 then
              st\<lparr> params := p\<lparr> velocity := (if nextVel < targetCruiseSpeed then nextVel + 1.0 else nextVel),
                                angleOfAttack := 12 \<rparr>,
                   isAltHold := False \<rparr>
            else
              st\<lparr> params := p\<lparr> velocity := nextVel + (targetCruiseSpeed - nextVel) * 0.1,
                                angleOfAttack := nextAoA \<rparr>,
                   isAltHold := True \<rparr>)
      else st)"

section \<open>Event handlers\<close>

definition toggleLanding :: "real App \<Rightarrow> real App" where
  "toggleLanding st =
     (if \<not> isFlying (results (params st) (altitude st)) \<and> altitude st \<le> 0 then st
      else st\<lparr> isLanding := \<not> isLanding st,
               isAltHold := (if isAltHold st then False else isAltHold st),
               autoThrottle := (if autoThrottle st then False else autoThrottle st) \<rparr>)"

definition toggleAutoV :: "real App \<Rightarrow> real App" where
  "toggleAutoV st =
     st\<lparr> autoThrottle := \<not> autoThrottle st,
          isLanding := (if isLanding st then False else isLanding st),
          isAltHold := (if \<not> autoThrottle st then False else isAltHold st) \<rparr>"

text \<open>The HOLD button: \<^verbatim>\<open>onClick={() => setIsAltHold(!isAltHold)}\<close>,
  \<^verbatim>\<open>disabled={isLanding || autoThrottle}\<close>; a disabled button delivers no click.\<close>

definition toggleAltHold :: "real App \<Rightarrow> real App" where
  "toggleAltHold st =
     (if isLanding st \<or> autoThrottle st then st
      else st\<lparr> isAltHold := \<not> isAltHold st \<rparr>)"

definition resetStats :: "real App \<Rightarrow> real App" where
  "resetStats st =
     st\<lparr> distance := 0,
          flightTime := 0,
          altitude := 0,
          params := (params st)\<lparr> velocity := 0, angleOfAttack := 4 \<rparr>,
          isLanding := False,
          autoThrottle := False,
          isAltHold := False,
          lastTime := 0 \<rparr>"

text \<open>A click on a wing-profile button with entry \<open>(id, weight, span, chord)\<close> of
  \<^verbatim>\<open>wingProfiles\<close>, and the three numeric input fields, which store
  \<^verbatim>\<open>Number(e.target.value)\<close> as it is (for either type of numbers).\<close>

definition wingProfiles :: "(WingType \<times> real \<times> real \<times> real) list" where
  "wingProfiles =
     [(Airbus, 575000, 79.75, 10.6),
      (Stealth, 29900, 10.7, 5.5),
      (Cambered, 1111, 11.0, 1.6),
      (Symmetric, 950, 7.5, 1.4),
      (FlatBottom, 550, 10.7, 1.6),
      (Thin, 12000, 9.96, 3.5)]"

definition selectWingProfile :: "WingType \<times> real \<times> real \<times> real \<Rightarrow> real App \<Rightarrow> real App" where
  "selectWingProfile wp st =
     (case wp of (wid, w, sp, ch) \<Rightarrow>
        st\<lparr> params := (params st)\<lparr> wingType := wid, weight := w, wingSpan := sp, chordLength := ch \<rparr> \<rparr>)"

definition inputWeight :: "'n \<Rightarrow> 'n App \<Rightarrow> 'n App" where
  "inputWeight x st = st\<lparr> params := (params st)\<lparr> weight := x \<rparr> \<rparr>"




section \<open>The dashboard\<close>

text \<open>\<^verbatim>\<open>Math.round\<close>: the nearest integer, halves rounded up.\<close>

definition Math_round :: "real \<Rightarrow> int" where
  "Math_round x = \<lfloor>x + 1 / 2\<rfloor>"

record ChartPoint =
  speed :: int
  lift :: int

text \<open>The variable \<^verbatim>\<open>lift\<close> in the body of the loop of \<^verbatim>\<open>generateChartData\<close>, for the
  loop variable \<open>v\<close>. The chain that sets \<^verbatim>\<open>baseCl\<close> is the same text as in \<^verbatim>\<open>App.tsx\<close>.\<close>

definition chartLift :: "real FlightParams \<Rightarrow> real \<Rightarrow> real" where
  "chartLift p v =
     (let s = wingSpan p * chordLength p;
          aoaRad = (angleOfAttack p * pi) / 180;
          cl = 2 * pi * aoaRad + baseCl (wingType p);
          cl = (if angleOfAttack p > 16
                then cl * max 0 (1 - (angleOfAttack p - 16) * 0.15)
                else cl)
      in 0.5 * airDensity p * (v + headWind p) ^ 2 * s * max 0 cl)"

text \<open>\<^verbatim>\<open>for (let v = 0; v <= maxV; v += 50)\<close> with \<^verbatim>\<open>maxV = 650\<close>, from the value \<open>v\<close> on.\<close>

function generateChartDataFrom :: "real FlightParams \<Rightarrow> nat \<Rightarrow> ChartPoint list" where
  "generateChartDataFrom p v =
     (if v \<le> 650
      then \<lparr> speed = Math_round (real v * 3.6), lift = Math_round (chartLift p (real v)) \<rparr>
             # generateChartDataFrom p (v + 50)
      else [])"
  by pat_completeness auto
termination
  by (relation "measure (\<lambda>(p, v). 651 - v)") auto

definition generateChartData :: "real FlightParams \<Rightarrow> ChartPoint list" where
  "generateChartData p = generateChartDataFrom p 0"

section \<open>JavaScript numbers\<close>

text \<open>
  Where a claim depends on what the program does with numbers that are not finite, the
  transitions are given a second time over \<open>jsnum\<close>: the finite numbers, the two
  infinities and NaN. An operation on finite numbers is the operation on the reals
  followed by \<open>js_fin\<close>: a result whose magnitude reaches \<open>JS_OVERFLOW\<close> (the least
  magnitude that rounds to an infinity) becomes that infinity, one whose magnitude is at
  most \<open>JS_UNDERFLOW\<close> (the greatest magnitude that rounds to zero) becomes 0. Rounding
  within the finite range is not modelled, and the two zeros of a double are one.
  The operations on an infinity or NaN follow IEEE 754, as JavaScript's do.
\<close>

datatype jsnum = Num real | PosInf | NegInf | NaN

definition JS_OVERFLOW :: real where
  "JS_OVERFLOW = 2 ^ 1024 - 2 ^ 970"

definition JS_UNDERFLOW :: real where
  "JS_UNDERFLOW = 1 / 2 ^ 1075"

definition js_fin :: "real \<Rightarrow> jsnum" where
  "js_fin r =
     (if JS_OVERFLOW \<le> r then PosInf
      else if r \<le> - JS_OVERFLOW then NegInf
      else if \<bar>r\<bar> \<le> JS_UNDERFLOW then Num 0
      else Num r)"

fun js_neg :: "jsnum \<Rightarrow> jsnum" where
  "js_neg (Num a) = Num (- a)"
| "js_neg PosInf = NegInf"
| "js_neg NegInf = PosInf"
| "js_neg NaN = NaN"

fun js_add :: "jsnum \<Rightarrow> jsnum \<Rightarrow> jsnum" where
  "js_add (Num a) (Num b) = js_fin (a + b)"
| "js_add NaN y = NaN"
| "js_add x NaN = NaN"
| "js_add PosInf NegInf = NaN"
| "js_add NegInf PosInf = NaN"
| "js_add PosInf y = PosInf"
| "js_add x PosInf = PosInf"
| "js_add NegInf y = NegInf"
| "js_add x NegInf = NegInf"

definition js_sub :: "jsnum \<Rightarrow> jsnum \<Rightarrow> jsnum" where
  "js_sub x y = js_add x (js_neg y)"

text \<open>The sign of a number that is not NaN, for the products and quotients with an
  infinity.\<close>

fun js_sign :: "jsnum \<Rightarrow> int" where
  "js_sign (Num a) = (if a = 0 then 0 else if 0 < a then 1 else - 1)"
| "js_sign PosInf = 1"
| "js_sign NegInf = - 1"
| "js_sign NaN = 0"

definition js_inf :: "int \<Rightarrow> jsnum" where
  "js_inf s = (if s = 0 then NaN else if 0 < s then PosInf else NegInf)"

fun js_mul :: "jsnum \<Rightarrow> jsnum \<Rightarrow> jsnum" where
  "js_mul (Num a) (Num b) = js_fin (a * b)"
| "js_mul NaN y = NaN"
| "js_mul x NaN = NaN"
| "js_mul x y = js_inf (js_sign x * js_sign y)"

text \<open>Division: a finite number by 0 is an infinity (NaN for \<open>0 / 0\<close>), a finite number by
  an infinity is 0, an infinity by an infinity is NaN.\<close>

fun js_div :: "jsnum \<Rightarrow> jsnum \<Rightarrow> jsnum" where
  "js_div (Num a) (Num b) = (if b = 0 then js_inf (js_sign (Num a)) else js_fin (a / b))"
| "js_div NaN y = NaN"
| "js_div x NaN = NaN"
| "js_div (Num a) y = Num 0"
| "js_div x (Num b) = js_inf (js_sign x * (if b < 0 then - 1 else 1))"
| "js_div x y = NaN"

text \<open>Comparisons are false as soon as an operand is NaN.\<close>

fun js_lt :: "jsnum \<Rightarrow> jsnum \<Rightarrow> bool" where
  "js_lt (Num a) (Num b) = (a < b)"
| "js_lt NaN y = False"
| "js_lt x NaN = False"
| "js_lt PosInf y = False"
| "js_lt x PosInf = True"
| "js_lt x NegInf = False"
| "js_lt NegInf y = True"

definition js_gt :: "jsnum \<Rightarrow> jsnum \<Rightarrow> bool" where
  "js_gt x y = js_lt y x"

definition js_le :: "jsnum \<Rightarrow> jsnum \<Rightarrow> bool" where
  "js_le x y = (js_lt x y \<or> (x = y \<and> x \<noteq> NaN))"

definition js_ge :: "jsnum \<Rightarrow> jsnum \<Rightarrow> bool" where
  "js_ge x y = js_le y x"

text \<open>\<^verbatim>\<open>Math.max\<close>, \<^verbatim>\<open>Math.min\<close>, \<^verbatim>\<open>Math.pow(x, 2)\<close>, \<^verbatim>\<open>Math.sqrt\<close>, \<^verbatim>\<open>Math.PI\<close> and the
  test \<^verbatim>\<open>!x\<close> of a number.\<close>

definition js_max :: "jsnum \<Rightarrow> jsnum \<Rightarrow> jsnum" where
  "js_max x y = (if x = NaN \<or> y = NaN then NaN else if js_lt x y then y else x)"

definition js_min :: "jsnum \<Rightarrow> jsnum \<Rightarrow> jsnum" where
  "js_min x y = (if x = NaN \<or> y = NaN then NaN else if js_lt y x then y else x)"

definition js_pow2 :: "jsnum \<Rightarrow> jsnum" where
  "js_pow2 x = js_mul x x"

fun js_sqrt :: "jsnum \<Rightarrow> jsnum" where
  "js_sqrt (Num a) = (if a < 0 then NaN else Num (sqrt a))"
| "js_sqrt PosInf = PosInf"
| "js_sqrt NegInf = NaN"
| "js_sqrt NaN = NaN"

definition Math_PI :: jsnum where
  "Math_PI = Num pi"

definition js_not :: "jsnum \<Rightarrow> bool" where
  "js_not x = (x = Num 0 \<or> x = NaN)"

section \<open>The transitions over JavaScript numbers\<close>

text \<open>
  The same source text as above (\<^verbatim>\<open>currentAirDensity\<close>, \<^verbatim>\<open>results\<close>, \<^verbatim>\<open>loop\<close>, the load
  factor of the dashboard), with every arithmetic operation, comparison and \<^verbatim>\<open>Math\<close>
  function replaced by its counterpart on \<open>jsnum\<close>. \<open>loopTracedJS\<close> returns, beside the
  state after the frame, the denominators of the divisions the frame evaluates, in the
  order of evaluation: \<^verbatim>\<open>massDamping\<close> for \<^verbatim>\<open>climbRate\<close>, the denominator of \<^verbatim>\<open>targetCl\<close> when
  the altitude-hold branch runs, and \<^verbatim>\<open>massDamping\<close> for \<^verbatim>\<open>currentVSI\<close> when the autoland
  branch runs (the divisions by the constants 1000, \<^verbatim>\<open>2 * Math.PI\<close> and \<^verbatim>\<open>Math.PI\<close> are not
  listed).
\<close>

definition initialParamsJS :: "jsnum FlightParams" where
  "initialParamsJS =
     \<lparr> weight = Num 575000, wingSpan = Num 79.75, chordLength = Num 10.6, velocity = Num 0,
       headWind = Num 0, airDensity = Num SEA_LEVEL_AIR_DENSITY, angleOfAttack = Num 4,
       wingType = Airbus \<rparr>"

definition initialAppJS :: "jsnum App" where
  "initialAppJS =
     \<lparr> params = initialParamsJS, altitude = Num 0, distance = Num 0, flightTime = Num 0,
       autoThrottle = False, isPaused = False, isAltHold = False, isLanding = False,
       landingStatus = '''', lastTime = Num 0 \<rparr>"

definition currentAirDensityJS :: "jsnum \<Rightarrow> jsnum" where
  "currentAirDensityJS alt =
     (let lapseRate = Num 0.00008
      in js_max (Num 0.35) (js_sub (Num SEA_LEVEL_AIR_DENSITY) (js_mul alt lapseRate)))"

definition liftCoefficientJS :: "jsnum FlightParams \<Rightarrow> jsnum" where
  "liftCoefficientJS p =
     (let aoaRad = js_div (js_mul (angleOfAttack p) Math_PI) (Num 180);
          cl = js_add (js_mul (js_mul (Num 2) Math_PI) aoaRad) (Num (baseCl (wingType p)));
          cl = (if js_gt (angleOfAttack p) (Num 16)
                then js_mul cl
                       (js_max (Num 0)
                          (js_sub (Num 1) (js_mul (js_sub (angleOfAttack p) (Num 16)) (Num 0.2))))
                else cl)
      in js_max (Num 0) cl)"

definition takeoffDenominatorJS :: "jsnum FlightParams \<Rightarrow> jsnum \<Rightarrow> jsnum" where
  "takeoffDenominatorJS p alt =
     js_mul (js_mul (currentAirDensityJS alt) (js_mul (wingSpan p) (chordLength p)))
            (js_max (Num 0.1) (liftCoefficientJS p))"

definition takeoffRadicandJS :: "jsnum FlightParams \<Rightarrow> jsnum \<Rightarrow> jsnum" where
  "takeoffRadicandJS p alt =
     js_div (js_mul (Num 2) (js_mul (weight p) (Num GRAVITY))) (takeoffDenominatorJS p alt)"

definition resultsJS :: "jsnum FlightParams \<Rightarrow> jsnum \<Rightarrow> jsnum SimulationResults" where
  "resultsJS p alt =
     (let s = js_mul (wingSpan p) (chordLength p);
          totalAirspeed = js_add (velocity p) (headWind p);
          cl = liftCoefficientJS p;
          rho = currentAirDensityJS alt;
          liftForce = js_mul (js_mul (js_mul (js_mul (Num 0.5) rho) (js_pow2 totalAirspeed)) s) cl;
          weightForce = js_mul (weight p) (Num GRAVITY);
          requiredTakeoffSpeed = js_sub (js_sqrt (takeoffRadicandJS p alt)) (headWind p)
      in \<lparr> liftForce = liftForce,
           dragForce = js_mul liftForce (if js_gt totalAirspeed (Num 250) then Num 0.15 else Num 0.05),
           requiredTakeoffSpeed = requiredTakeoffSpeed,
           isFlying = (js_gt liftForce weightForce \<and> js_gt totalAirspeed (Num 25)),
           pressureTop = js_mul (js_mul (Num (- 0.5)) rho)
                           (js_sub (js_pow2 (js_mul totalAirspeed (Num 1.2))) (js_pow2 totalAirspeed)),
           pressureBottom = js_mul (js_mul (Num (- 0.5)) rho)
                              (js_sub (js_pow2 (js_mul totalAirspeed (Num 0.8))) (js_pow2 totalAirspeed)),
           velocityTop = js_mul totalAirspeed (Num 1.2),
           velocityBottom = js_mul totalAirspeed (Num 0.8),
           resultsAltitude = alt \<rparr>)"

definition massDampingJS :: "jsnum FlightParams \<Rightarrow> jsnum" where
  "massDampingJS p = js_max (Num 10000) (js_div (weight p) (Num 25))"

definition climbRateJS :: "jsnum App \<Rightarrow> jsnum" where
  "climbRateJS st =
     (let weightForce = js_mul (weight (params st)) (Num GRAVITY);
          netForce = js_sub (liftForce (resultsJS (params st) (altitude st))) weightForce
      in js_div netForce (massDampingJS (params st)))"

definition updateAltitudeJS :: "jsnum \<Rightarrow> jsnum \<Rightarrow> bool \<Rightarrow> jsnum \<Rightarrow> jsnum" where
  "updateAltitudeJS rate dt auto prev =
     (let next = js_add prev (js_mul rate dt) in
      if js_le next (Num 0) then Num 0
      else if js_ge next (Num 10000) \<and> auto then Num 10000
      else next)"

definition targetClDenominatorJS :: "jsnum App \<Rightarrow> jsnum" where
  "targetClDenominatorJS c =
     (let totalAirspeed = js_add (velocity (params c)) (headWind (params c));
          s = js_mul (wingSpan (params c)) (chordLength (params c))
      in js_mul (js_mul (js_mul (Num 0.5) (currentAirDensityJS (altitude c))) (js_pow2 totalAirspeed)) s)"

definition targetAoADegJS :: "jsnum App \<Rightarrow> jsnum" where
  "targetAoADegJS c =
     (let weightForce = js_mul (weight (params c)) (Num GRAVITY);
          targetCl = js_div weightForce (targetClDenominatorJS c)
      in js_mul (js_div (js_sub targetCl (if wingType (params c) = Airbus then Num 0.45 else Num 0.2))
                        (js_mul (Num 2) Math_PI))
                (js_div (Num 180) Math_PI))"

definition altHoldUpdaterJS :: "jsnum App \<Rightarrow> jsnum FlightParams \<Rightarrow> jsnum FlightParams" where
  "altHoldUpdaterJS c prev =
     (let clampedAoA = js_min (Num 15) (js_max (Num (- 5)) (targetAoADegJS c))
      in prev\<lparr> angleOfAttack :=
                 js_add (angleOfAttack prev)
                        (js_mul (js_sub clampedAoA (angleOfAttack prev)) (Num 0.02)) \<rparr>)"

definition landingUpdaterJS ::
  "jsnum App \<Rightarrow> jsnum FlightParams \<Rightarrow> jsnum FlightParams \<times> bool \<times> string" where
  "landingUpdaterJS c prev =
     (let targetApproachSpeed = Num 75;
          targetDescentRate = (if js_gt (altitude c) (Num 50) then Num (- 6) else Num (- 2));
          weightForce = js_mul (weight (params c)) (Num GRAVITY);
          nextVel = velocity prev;
          nextAoA = angleOfAttack prev;
          currentVSI = js_div (js_sub (liftForce (resultsJS (params c) (altitude c))) weightForce)
                              (massDampingJS (params c));
          nextVel = (if js_gt nextVel (js_add targetApproachSpeed (Num 2)) then js_sub nextVel (Num 0.4)
                     else if js_lt nextVel (js_sub targetApproachSpeed (Num 2)) then js_add nextVel (Num 0.4)
                     else nextVel)
      in if js_gt (altitude c) (Num 15) then
           (let vsiError = js_sub targetDescentRate currentVSI;
                nextAoA = js_add nextAoA (js_mul vsiError (Num 0.08))
            in (prev\<lparr> velocity := nextVel,
                       angleOfAttack := js_max (Num (- 2)) (js_min (Num 15) nextAoA) \<rparr>,
                isLanding c, ''GLIDESLOPE INTERCEPT''))
         else if js_gt (altitude c) (Num 0.5) then
           (let nextAoA = js_add nextAoA (js_mul (js_sub (Num 8.5) nextAoA) (Num 0.1));
                nextVel = js_mul nextVel (Num 0.99)
            in (prev\<lparr> velocity := nextVel,
                       angleOfAttack := js_max (Num (- 2)) (js_min (Num 15) nextAoA) \<rparr>,
                isLanding c, ''FLARE / REDUCE THRUST''))
         else
           (let nextAoA = Num 2;
                nextVel = js_max (Num 0) (js_sub nextVel (Num 2.5))
            in (prev\<lparr> velocity := nextVel,
                       angleOfAttack := js_max (Num (- 2)) (js_min (Num 15) nextAoA) \<rparr>,
                if nextVel = Num 0 then False else isLanding c,
                if nextVel = Num 0 then '''' else ''TOUCHDOWN / BRAKING'')))"

definition elapsedJS :: "jsnum \<Rightarrow> jsnum App \<Rightarrow> jsnum" where
  "elapsedJS time st =
     (let last = (if js_not (lastTime st) then time else lastTime st)
      in js_div (js_sub time last) (Num 1000))"

definition loopTracedJS :: "jsnum \<Rightarrow> jsnum App \<Rightarrow> jsnum App \<times> jsnum list" where
  "loopTracedJS time st =
     (if \<not> isPaused st then
        (let dt = elapsedJS time st;
             res = resultsJS (params st) (altitude st);
             hold = (if isAltHold st \<and> \<not> isLanding st \<and> isFlying res
                     then (if js_gt (js_add (velocity (params st)) (headWind (params st))) (Num 10)
                           then (altHoldUpdaterJS st (params st), [targetClDenominatorJS st])
                           else (params st, []))
                     else (params st, []));
             l = (if isLanding st then landingUpdaterJS st (fst hold)
                  else (fst hold, isLanding st, landingStatus st))
         in (st\<lparr> lastTime := time,
                 altitude := updateAltitudeJS (climbRateJS st) dt (autoThrottle st) (altitude st),
                 distance := js_add (distance st) (js_mul (velocity (params st)) dt),
                 flightTime := (if js_gt (velocity (params st)) (Num 0) \<or> isFlying res
                                then js_add (flightTime st) dt else flightTime st),
                 params := fst l,
                 isLanding := fst (snd l),
                 landingStatus := snd (snd l) \<rparr>,
             [massDampingJS (params st)] @ snd hold
               @ (if isLanding st then [massDampingJS (params st)] else [])))
      else (st\<lparr> lastTime := Num 0 \<rparr>, []))"

definition loopJS :: "jsnum \<Rightarrow> jsnum App \<Rightarrow> jsnum App" where
  "loopJS time st = fst (loopTracedJS time st)"

text \<open>The load factor shown by the dashboard:
  \<^verbatim>\<open>results.liftForce / (params.weight * 9.81)\<close>.\<close>

definition loadFactorDenominatorJS :: "jsnum FlightParams \<Rightarrow> jsnum" where
  "loadFactorDenominatorJS p = js_mul (weight p) (Num 9.81)"

definition loadFactorJS :: "jsnum SimulationResults \<Rightarrow> jsnum FlightParams \<Rightarrow> jsnum" where
  "loadFactorJS res p = js_div (liftForce res) (loadFactorDenominatorJS p)"

section \<open>Modes and sample states\<close>

text \<open>The three autopilot modes, the state cell of each and the handler that toggles it.\<close>

datatype Mode = AutoMission | AltitudeHold | Autoland

fun modeActive :: "Mode \<Rightarrow> real App \<Rightarrow> bool" where
  "modeActive AutoMission st = autoThrottle st"
| "modeActive AltitudeHold st = isAltHold st"
| "modeActive Autoland st = isLanding st"

fun toggleMode :: "Mode \<Rightarrow> real App \<Rightarrow> real App" where
  "toggleMode AutoMission st = toggleAutoV st"
| "toggleMode AltitudeHold st = toggleAltHold st"
| "toggleMode Autoland st = toggleLanding st"

text \<open>Concrete states used to instantiate the theorems below.\<close>

definition airborneApp :: "real App" where
  "airborneApp = initialApp\<lparr> altitude := 1000, isAltHold := True \<rparr>"

definition touchdownApp :: "real App" where
  "touchdownApp =
     initialApp\<lparr> isLanding := True, altitude := 0.3, landingStatus := ''FLARE / REDUCE THRUST'',
       params := initialParams\<lparr> velocity := 100, angleOfAttack := 8 \<rparr> \<rparr>"

definition rolloutApp :: "real App" where
  "rolloutApp =
     initialApp\<lparr> isLanding := True, altitude := 0, landingStatus := ''TOUCHDOWN / BRAKING'',
       params := initialParams\<lparr> velocity := 2, angleOfAttack := 2 \<rparr> \<rparr>"

definition takeoffRollApp :: "real App" where
  "takeoffRollApp = initialApp\<lparr> autoThrottle := True \<rparr>"

definition climbApp :: "real App" where
  "climbApp =
     initialApp\<lparr> autoThrottle := True, altitude := 5000, isAltHold := True,
       params := initialParams\<lparr> velocity := 100 \<rparr> \<rparr>"

definition cruiseApp :: "real App" where
  "cruiseApp =
     initialApp\<lparr> autoThrottle := True, altitude := 9950,
       params := initialParams\<lparr> velocity := 100, angleOfAttack := 12 \<rparr> \<rparr>"

text \<open>The Cessna 172 profile of \<^verbatim>\<open>wingProfiles\<close> (cambered wing) at 50 m/s, 1000 m up,
  level angle of attack, altitude hold on.\<close>

definition cessnaHoldApp :: "real App" where
  "cessnaHoldApp =
     initialApp\<lparr> altitude := 1000, isAltHold := True,
       params := \<lparr> weight = 1111, wingSpan = 11.0, chordLength = 1.6, velocity = 50, headWind = 0,
                   airDensity = SEA_LEVEL_AIR_DENSITY, angleOfAttack = 0, wingType = Cambered \<rparr> \<rparr>"

text \<open>The default aircraft with the angle-of-attack slider at 21 degrees.\<close>

definition stalledParams :: "real FlightParams" where
  "stalledParams = initialParams\<lparr> angleOfAttack := 21 \<rparr>"

text \<open>The default aircraft with the angle-of-attack slider at 0, over both number types.\<close>

definition levelParams :: "real FlightParams" where
  "levelParams = initialParams\<lparr> angleOfAttack := 0 \<rparr>"

definition levelAppJS :: "jsnum App" where
  "levelAppJS = initialAppJS\<lparr> params := initialParamsJS\<lparr> angleOfAttack := Num 0 \<rparr> \<rparr>"

text \<open>That aircraft after \<^verbatim>\<open>1e308\<close> has been typed into the weight field (no frame has
  run yet), and that aircraft 1 m above ground with its last frame at 500 ms.\<close>

definition overweightAppJS :: "jsnum App" where
  "overweightAppJS = inputWeight (Num (10 ^ 308)) levelAppJS"

definition sinkingAppJS :: "jsnum App" where
  "sinkingAppJS = levelAppJS\<lparr> altitude := Num 1, lastTime := Num 500 \<rparr>"





text \<open>The approach-speed regulation at the head of the autoland updater, as a function of
  the previous velocity: 0.4 towards the band of 2 around the target of 75.\<close>

definition approachRegulated :: "real \<Rightarrow> real" where
  "approachRegulated v = (if v > 77 then v - 0.4 else if v < 73 then v + 0.4 else v)"

text \<open>The lift-curve slope per degree of the thin-airfoil term \<^verbatim>\<open>2 * Math.PI * aoaRad\<close>.\<close>

definition thinAirfoilSlope :: real where
  "thinAirfoilSlope = 2 * pi * (pi / 180)"

text \<open>The values the loop variable of \<^verbatim>\<open>generateChartData\<close> takes.\<close>

definition sampleSpeeds :: "nat list" where
  "sampleSpeeds = [0, 50, 100, 150, 200, 250, 300, 350, 400, 450, 500, 550, 600, 650]"

text \<open>
  The altitude-hold law in the words of the specification, for comparison with
  \<open>targetAoADeg\<close> and \<open>altHoldUpdater\<close>: the target lift coefficient
  \<open>weightForce / (0.5 * airDensity * totalAirspeed\<^sup>2 * wingArea)\<close> is converted to an angle
  by inverting \<open>cl = 2 * pi * (aoa * pi / 180) + baseCl wingType\<close>, the angle is clamped to
  \<open>[-5, 15]\<close>, and the current angle moves 2 percent of the way towards it.
\<close>

definition specTargetAoADeg :: "real App \<Rightarrow> real" where
  "specTargetAoADeg c =
     (let weightForce = weight (params c) * GRAVITY;
          totalAirspeed = velocity (params c) + headWind (params c);
          wingArea = wingSpan (params c) * chordLength (params c);
          targetCl = weightForce / (0.5 * currentAirDensity (altitude c) * totalAirspeed ^ 2 * wingArea)
      in ((targetCl - baseCl (wingType (params c))) / (2 * pi)) * (180 / pi))"

definition specAltHoldAoA :: "real App \<Rightarrow> real" where
  "specAltHoldAoA c =
     (let clamped = min 15 (max (- 5) (specTargetAoADeg c))
      in angleOfAttack (params c) + (clamped - angleOfAttack (params c)) * 0.02)"

section \<open>Mode toggles\<close>

lemma toggle_activation_exclusive:
  assumes "\<not> modeActive m st" and "modeActive m (toggleMode m st)" and "m' \<noteq> m"
  shows "\<not> modeActive m' (toggleMode m st)"
  using assms
  by (cases m; cases m')
     (auto simp: toggleAutoV_def toggleAltHold_def toggleLanding_def split: if_splits)

text \<open>
  Claim C1. Whenever a toggle handler switches its mode on (the mode was inactive before
  the handler ran and is active after it), the other two modes are inactive in the state
  the handler leaves. The state before the toggle is arbitrary, so this holds in
  particular after any earlier toggle \<open>m0\<close>: the second conjunct spells that out for
  every ordered pair of toggles.
\<close>

theorem mode_toggle_mutual_exclusion:
  "(\<not> modeActive m st \<and> modeActive m (toggleMode m st) \<and> m' \<noteq> m
      \<longrightarrow> \<not> modeActive m' (toggleMode m st)) \<and>
   (\<not> modeActive m (toggleMode m0 st) \<and> modeActive m (toggleMode m (toggleMode m0 st)) \<and> m' \<noteq> m
      \<longrightarrow> \<not> modeActive m' (toggleMode m (toggleMode m0 st)))"
  using toggle_activation_exclusive [of m st m']
        toggle_activation_exclusive [of m "toggleMode m0 st" m']
  by blast

text \<open>At 1000 m with altitude hold on: AUTO LAND switches landing on and the hold off;
  AUTO MISSION pressed next switches the mission on and landing off. From the initial
  state the HOLD button switches the hold on.\<close>

theorem mode_toggle_mutual_exclusion_witness:
  "\<not> modeActive Autoland airborneApp \<and> modeActive AltitudeHold airborneApp \<and>
   modeActive Autoland (toggleMode Autoland airborneApp) \<and>
   \<not> modeActive AltitudeHold (toggleMode Autoland airborneApp) \<and>
   \<not> modeActive AutoMission (toggleMode Autoland airborneApp) \<and>
   modeActive AutoMission (toggleMode AutoMission (toggleMode Autoland airborneApp)) \<and>
   \<not> modeActive Autoland (toggleMode AutoMission (toggleMode Autoland airborneApp)) \<and>
   \<not> modeActive AltitudeHold (toggleMode AutoMission (toggleMode Autoland airborneApp)) \<and>
   \<not> modeActive AltitudeHold initialApp \<and>
   modeActive AltitudeHold (toggleMode AltitudeHold initialApp) \<and>
   \<not> modeActive Autoland (toggleMode AltitudeHold initialApp) \<and>
   \<not> modeActive AutoMission (toggleMode AltitudeHold initialApp)"
  using mode_toggle_mutual_exclusion [of Autoland airborneApp AltitudeHold Autoland]
        mode_toggle_mutual_exclusion [of AutoMission airborneApp Autoland Autoland]
        mode_toggle_mutual_exclusion [of AltitudeHold initialApp Autoland Autoland]
  by (simp add: airborneApp_def initialApp_def toggleLanding_def toggleAutoV_def toggleAltHold_def)

section \<open>JavaScript numbers: basic facts\<close>

lemma JS_OVERFLOW_big: "10 ^ 20 < JS_OVERFLOW"
  by (simp add: JS_OVERFLOW_def)

lemma JS_UNDERFLOW_small: "0 < JS_UNDERFLOW" "JS_UNDERFLOW < 1 / 10 ^ 310"
  by (simp_all add: JS_UNDERFLOW_def)

lemma JS_OVERFLOW_pos: "0 < JS_OVERFLOW"
  using JS_OVERFLOW_big by simp

lemma js_fin_not_NaN [simp]: "js_fin r \<noteq> NaN"
  by (simp add: js_fin_def)

lemma js_fin_zero [simp]: "js_fin 0 = Num 0"
  using JS_OVERFLOW_pos JS_UNDERFLOW_small(1) by (simp add: js_fin_def)

lemma js_fin_mid:
  assumes "1 / 10 ^ 20 \<le> \<bar>r\<bar>" and "\<bar>r\<bar> \<le> 10 ^ 20"
  shows "js_fin r = Num r"
proof -
  have "JS_UNDERFLOW < \<bar>r\<bar>"
    using assms(1) JS_UNDERFLOW_small(2) by (simp add: JS_UNDERFLOW_def)
  moreover have "\<bar>r\<bar> < JS_OVERFLOW" using assms(2) JS_OVERFLOW_big by simp
  ultimately show ?thesis by (simp add: js_fin_def abs_if split: if_splits)
qed

lemma js_fin_Num: "JS_UNDERFLOW < \<bar>r\<bar> \<Longrightarrow> \<bar>r\<bar> < JS_OVERFLOW \<Longrightarrow> js_fin r = Num r"
  by (auto simp: js_fin_def)

lemma js_fin_Num_ex: "\<bar>r\<bar> < JS_OVERFLOW \<Longrightarrow> \<exists>s. js_fin r = Num s"
  by (auto simp: js_fin_def)


lemma js_fin_overflow: "JS_OVERFLOW \<le> r \<Longrightarrow> js_fin r = PosInf"
  by (simp add: js_fin_def)



lemma js_fin_two_pi: "js_fin (2 * pi) = Num (2 * pi)"
  using pi_ge_two pi_less_4 by (intro js_fin_mid) simp_all


lemma js_add_NaN_right: "js_add x NaN = NaN"
  by (cases x) simp_all


lemma js_lt_Num_cases:
  "js_lt (Num b) x = (x = PosInf \<or> (\<exists>a. x = Num a \<and> b < a))"
  by (cases x) auto








lemma currentAirDensityJS_ground: "currentAirDensityJS (Num 0) = Num 1.225"
  by (simp add: currentAirDensityJS_def Let_def SEA_LEVEL_AIR_DENSITY_def js_sub_def js_fin_mid
                js_max_def)




lemma liftCoefficientJS_level:
  assumes "angleOfAttack p = Num 0"
  shows "liftCoefficientJS p = Num (baseCl (wingType p))"
proof -
  have b: "js_fin (baseCl (wingType p)) = Num (baseCl (wingType p))"
    by (cases "wingType p") (simp_all add: baseCl_def js_fin_mid)
  have n: "0 \<le> baseCl (wingType p)" by (simp add: baseCl_def)
  show ?thesis
    using assms n
    by (auto simp: liftCoefficientJS_def Let_def Math_PI_def js_fin_two_pi b js_gt_def js_max_def)
qed




lemma liftForce_at_rest:
  assumes "velocity p = Num 0" and "headWind p = Num 0" and "angleOfAttack p = Num 0"
    and "wingSpan p = Num b" and "chordLength p = Num c" and "\<bar>b * c\<bar> < JS_OVERFLOW"
  shows "liftForce (resultsJS p (Num 0)) = Num 0"
proof -
  obtain s where s: "js_mul (wingSpan p) (chordLength p) = Num s"
    using js_fin_Num_ex [OF assms(6)] assms(4,5) by auto
  show ?thesis
    using assms(1,2)
    by (simp add: resultsJS_def Let_def s liftCoefficientJS_level [OF assms(3)]
          currentAirDensityJS_ground js_pow2_def js_fin_mid)
qed

section \<open>Altitude integration\<close>

lemma updateAltitudeJS_nonneg:
  assumes "js_add prev (js_mul rate dt) \<noteq> NaN"
  shows "js_le (Num 0) (updateAltitudeJS rate dt auto prev)"
  using assms
  by (cases "js_add prev (js_mul rate dt)")
     (auto simp: updateAltitudeJS_def Let_def js_le_def js_ge_def)

lemma updateAltitudeJS_clamp:
  assumes "js_add prev (js_mul rate dt) \<noteq> NaN"
  shows "updateAltitudeJS rate dt auto prev =
           (if auto then js_min (Num 10000) (js_max (Num 0) (js_add prev (js_mul rate dt)))
            else js_max (Num 0) (js_add prev (js_mul rate dt)))"
  using assms
  by (cases "js_add prev (js_mul rate dt)")
     (auto simp: updateAltitudeJS_def Let_def js_le_def js_ge_def js_max_def js_min_def)

lemma updateAltitudeJS_NaN:
  assumes "js_add prev (js_mul rate dt) = NaN"
  shows "updateAltitudeJS rate dt auto prev = NaN"
  using assms by (simp add: updateAltitudeJS_def Let_def js_le_def js_ge_def)

lemma finite_step_not_NaN: "js_add (Num a) (js_mul (Num r) (Num d)) \<noteq> NaN"
  by (cases "js_fin (r * d)") auto

lemma altitude_loopJS:
  "altitude (loopJS time st) =
     (if isPaused st then altitude st
      else updateAltitudeJS (climbRateJS st) (elapsedJS time st) (autoThrottle st) (altitude st))"
  by (simp add: loopJS_def loopTracedJS_def Let_def)

text \<open>On finite numbers whose product and sum neither overflow nor underflow, the updater
  over JavaScript numbers is the real-valued one.\<close>

lemma updateAltitudeJS_finite:
  assumes "js_mul (Num r) (Num d) = Num (r * d)"
    and "js_add (Num a) (Num (r * d)) = Num (a + r * d)"
  shows "updateAltitudeJS (Num r) (Num d) auto (Num a) = Num (updateAltitude r d auto a)"
  using assms by (auto simp: updateAltitudeJS_def updateAltitude_def Let_def js_le_def js_ge_def)

text \<open>
  Claim C4, as amended. In a frame that is not paused, whenever the sum
  \<open>altitude + climbRate * dt\<close> that the updater computes is a number (not NaN), the altitude
  after the frame is at least 0: it is the greater of 0 and that sum, clamped to at most
  10000 when the auto-mission is active. That is so in particular whenever the altitude,
  the climb rate and the elapsed time are finite numbers, of any sign. A paused frame
  leaves the altitude as it is. The updater itself returns a value of at least 0 for any
  climb rate, elapsed time and previous altitude whose combination is not NaN.
\<close>

theorem altitude_nonneg_unless_NaN:
  "(\<not> isPaused st \<and>
      js_add (altitude st) (js_mul (climbRateJS st) (elapsedJS time st)) \<noteq> NaN \<longrightarrow>
        js_le (Num 0) (altitude (loopJS time st)) \<and>
        altitude (loopJS time st) =
          (if autoThrottle st
           then js_min (Num 10000)
                  (js_max (Num 0) (js_add (altitude st) (js_mul (climbRateJS st) (elapsedJS time st))))
           else js_max (Num 0) (js_add (altitude st) (js_mul (climbRateJS st) (elapsedJS time st))))) \<and>
   (\<not> isPaused st \<and> altitude st = Num a \<and> climbRateJS st = Num r \<and> elapsedJS time st = Num d \<longrightarrow>
        js_le (Num 0) (altitude (loopJS time st))) \<and>
   (isPaused st \<longrightarrow> altitude (loopJS time st) = altitude st) \<and>
   (js_add prev (js_mul rate dt) \<noteq> NaN \<longrightarrow> js_le (Num 0) (updateAltitudeJS rate dt auto prev))"
proof -
  have fin: "js_le (Num 0) (altitude (loopJS time st))"
    if "\<not> isPaused st" "altitude st = Num a" "climbRateJS st = Num r" "elapsedJS time st = Num d"
  proof -
    have "js_add (altitude st) (js_mul (climbRateJS st) (elapsedJS time st)) \<noteq> NaN"
      unfolding that(2,3,4) by (rule finite_step_not_NaN)
    then show ?thesis
      using that(1) by (simp add: altitude_loopJS updateAltitudeJS_nonneg)
  qed
  show ?thesis
    using updateAltitudeJS_nonneg [of "altitude st" "climbRateJS st" "elapsedJS time st" "autoThrottle st"]
          updateAltitudeJS_clamp [of "altitude st" "climbRateJS st" "elapsedJS time st" "autoThrottle st"]
          updateAltitudeJS_nonneg [of prev rate dt auto] fin
    by (simp add: altitude_loopJS)
qed

lemma sinking_params:
  "velocity (params sinkingAppJS) = Num 0" "headWind (params sinkingAppJS) = Num 0"
  "angleOfAttack (params sinkingAppJS) = Num 0" "wingSpan (params sinkingAppJS) = Num 79.75"
  "chordLength (params sinkingAppJS) = Num 10.6" "weight (params sinkingAppJS) = Num 575000"
  "altitude sinkingAppJS = Num 1" "lastTime sinkingAppJS = Num 500"
  "\<not> isPaused sinkingAppJS" "\<not> autoThrottle sinkingAppJS"
  "wingType (params sinkingAppJS) = Airbus"
  by (simp_all add: sinkingAppJS_def levelAppJS_def initialAppJS_def initialParamsJS_def)

lemma sinking_liftForce:
  "liftForce (resultsJS (params sinkingAppJS) (altitude sinkingAppJS)) = Num 0"
  by (simp add: resultsJS_def Let_def sinking_params liftCoefficientJS_level
        currentAirDensityJS_def SEA_LEVEL_AIR_DENSITY_def js_sub_def js_max_def js_pow2_def
        js_fin_mid baseCl_def)

lemma sinking_climbRate: "climbRateJS sinkingAppJS = Num (- 5638823.75 / 23000)"
  unfolding climbRateJS_def Let_def sinking_liftForce
  by (simp add: sinking_params massDampingJS_def GRAVITY_def js_sub_def js_max_def js_fin_mid)

lemma sinking_elapsed: "elapsedJS (Num 1500) sinkingAppJS = Num 1"
  by (simp add: elapsedJS_def Let_def sinking_params js_not_def js_sub_def js_fin_mid)

lemma sinking_next:
  "js_add (altitude sinkingAppJS) (js_mul (climbRateJS sinkingAppJS) (elapsedJS (Num 1500) sinkingAppJS))
     = Num (1 - 5638823.75 / 23000)"
  unfolding sinking_climbRate sinking_elapsed sinking_params
  by (simp add: js_fin_mid)

text \<open>The default aircraft at rest, 1 m above ground, one second after the last frame:
  the weight pulls it below ground level and the altitude is set to 0.\<close>

theorem altitude_nonneg_unless_NaN_witness:
  "\<not> isPaused sinkingAppJS \<and> altitude sinkingAppJS = Num 1 \<and>
   climbRateJS sinkingAppJS = Num (- 5638823.75 / 23000) \<and>
   elapsedJS (Num 1500) sinkingAppJS = Num 1 \<and>
   js_add (altitude sinkingAppJS)
          (js_mul (climbRateJS sinkingAppJS) (elapsedJS (Num 1500) sinkingAppJS)) \<noteq> NaN \<and>
   js_le (Num 0) (altitude (loopJS (Num 1500) sinkingAppJS)) \<and>
   altitude (loopJS (Num 1500) sinkingAppJS) = Num 0"
proof -
  have n: "js_add (altitude sinkingAppJS)
          (js_mul (climbRateJS sinkingAppJS) (elapsedJS (Num 1500) sinkingAppJS)) \<noteq> NaN"
    by (simp add: sinking_next)
  note nx = sinking_next [unfolded sinking_params(7)]
  have v: "altitude (loopJS (Num 1500) sinkingAppJS) = Num 0"
    using altitude_nonneg_unless_NaN [of sinkingAppJS "Num 1500" 0 0 0 "Num 0" "Num 0" "Num 0" False]
          n sinking_params(7,9,10)
    by (simp add: nx js_max_def js_le_def)
  show ?thesis
    using n v sinking_params(7,9) sinking_climbRate sinking_elapsed
    by (simp add: js_le_def)
qed

lemma overweight_params:
  "velocity (params overweightAppJS) = Num 0" "headWind (params overweightAppJS) = Num 0"
  "angleOfAttack (params overweightAppJS) = Num 0" "wingSpan (params overweightAppJS) = Num 79.75"
  "chordLength (params overweightAppJS) = Num 10.6" "weight (params overweightAppJS) = Num (10 ^ 308)"
  "altitude overweightAppJS = Num 0" "lastTime overweightAppJS = Num 0"
  "\<not> isPaused overweightAppJS" "\<not> autoThrottle overweightAppJS"
  by (simp_all add: overweightAppJS_def inputWeight_def levelAppJS_def initialAppJS_def
        initialParamsJS_def)

lemma overweight_liftForce:
  "liftForce (resultsJS (params overweightAppJS) (altitude overweightAppJS)) = Num 0"
  unfolding overweight_params(7)
proof (rule liftForce_at_rest [OF overweight_params(1,2,3,4,5)])
  show "\<bar>79.75 * 10.6\<bar> < JS_OVERFLOW" using JS_OVERFLOW_big by simp
qed

lemma overweight_weightForce: "js_mul (Num (10 ^ 308)) (Num GRAVITY) = PosInf"
  by (simp add: js_fin_overflow GRAVITY_def JS_OVERFLOW_def)

lemma overweight_massDamping: "massDampingJS (params overweightAppJS) = Num (10 ^ 308 / 25)"
proof -
  have "js_fin (10 ^ 308 / 25) = Num (10 ^ 308 / 25)"
    by (rule js_fin_Num) (simp_all add: JS_OVERFLOW_def JS_UNDERFLOW_def)
  then show ?thesis
    by (simp add: massDampingJS_def overweight_params(6) js_max_def)
qed

lemma overweight_climbRate: "climbRateJS overweightAppJS = NegInf"
proof -
  have wf: "js_mul (weight (params overweightAppJS)) (Num GRAVITY) = PosInf"
    by (simp only: overweight_params(6) overweight_weightForce)
  show ?thesis
    unfolding climbRateJS_def Let_def wf overweight_liftForce overweight_massDamping
    by (simp add: js_sub_def js_inf_def)
qed

lemma overweight_elapsed: "elapsedJS (Num 16) overweightAppJS = Num 0"
  by (simp add: elapsedJS_def Let_def overweight_params(8) js_not_def js_sub_def)

lemma overweight_altitude_NaN: "altitude (loopJS (Num 16) overweightAppJS) = NaN"
  by (simp add: altitude_loopJS overweight_params overweight_climbRate overweight_elapsed
        updateAltitudeJS_def Let_def js_inf_def js_le_def js_ge_def)

text \<open>The claim as stated fails when the climb rate is not finite. With a weight of
  \<^verbatim>\<open>1e308\<close> (which the unvalidated weight field accepts) the weight force overflows, the
  climb rate is minus infinity, and in a frame with \<open>dt = 0\<close> (the first frame after a
  reset or a resume) the sum is NaN: both comparisons of the updater fail and the altitude
  becomes NaN, which is not at least 0.\<close>

theorem altitude_NaN_counterexample:
  "weight (params overweightAppJS) = Num (10 ^ 308) \<and>
   altitude overweightAppJS = Num 0 \<and>
   \<not> isPaused overweightAppJS \<and>
   climbRateJS overweightAppJS = NegInf \<and>
   elapsedJS (Num 16) overweightAppJS = Num 0 \<and>
   altitude (loopJS (Num 16) overweightAppJS) = NaN \<and>
   \<not> js_le (Num 0) (altitude (loopJS (Num 16) overweightAppJS))"
  by (simp add: overweight_altitude_NaN overweight_params overweight_climbRate overweight_elapsed
        js_le_def)

section \<open>Reset\<close>

text \<open>
  Claim C9, as amended. \<^verbatim>\<open>resetStats\<close> sets distance, flight time, altitude and velocity
  to 0 and the angle of attack to 4, clears the three mode flags, and leaves every other
  flight parameter (weight, wing span, chord length, head wind, air density, wing type)
  as it was.
\<close>

theorem reset_round_trip:
  "distance (resetStats st) = 0 \<and> flightTime (resetStats st) = 0 \<and> altitude (resetStats st) = 0 \<and>
   velocity (params (resetStats st)) = 0 \<and> angleOfAttack (params (resetStats st)) = 4 \<and>
   autoThrottle (resetStats st) = False \<and> isAltHold (resetStats st) = False \<and>
   isLanding (resetStats st) = False \<and>
   params (resetStats st) = (params st)\<lparr> velocity := 0, angleOfAttack := 4 \<rparr>"
  by (simp add: resetStats_def)

text \<open>The claim as stated fails: after the F-35 profile button, a reset keeps the stealth
  wing and its weight; the default preset is the Airbus one.\<close>

theorem reset_keeps_profile_counterexample:
  "(Stealth, 29900, 10.7, 5.5) \<in> set wingProfiles \<and>
   wingType (params (resetStats (selectWingProfile (Stealth, 29900, 10.7, 5.5) initialApp))) = Stealth \<and>
   weight (params (resetStats (selectWingProfile (Stealth, 29900, 10.7, 5.5) initialApp))) = 29900 \<and>
   wingType initialParams = Airbus \<and> weight initialParams = 575000 \<and>
   params (resetStats (selectWingProfile (Stealth, 29900, 10.7, 5.5) initialApp)) \<noteq> initialParams"
  by (simp add: resetStats_def selectWingProfile_def initialApp_def initialParams_def wingProfiles_def)


section \<open>Autoland: touchdown\<close>

lemma landingUpdater_touchdown:
  assumes "altitude c \<le> 0.5"
  shows "landingUpdater c prev =
           (prev\<lparr> velocity := max 0 (approachRegulated (velocity prev) - 2.5), angleOfAttack := 2 \<rparr>,
            if max 0 (approachRegulated (velocity prev) - 2.5) = 0 then False else isLanding c,
            if max 0 (approachRegulated (velocity prev) - 2.5) = 0 then '''' else ''TOUCHDOWN / BRAKING'')"
proof -
  have a: "\<not> altitude c > 15" "\<not> altitude c > 0.5" using assms by simp_all
  show ?thesis
    unfolding landingUpdater_def Let_def approachRegulated_def
    by (simp only: a if_False) simp
qed

text \<open>
  Claim C2. In every frame that runs the autoland branch at an altitude of at most 0.5 m,
  the angle of attack becomes 2, and the velocity becomes the previous velocity, first
  regulated by 0.4 towards the approach speed of 75 (when more than 2 away from it), then
  reduced by 2.5 and floored at 0. In the very frame in which that velocity is 0 the
  landing flag and the landing status are cleared; in any other such frame landing stays
  active with the touchdown status.
\<close>

theorem autoland_touchdown:
  assumes "isLanding st" and "\<not> isPaused st" and "altitude st \<le> 0.5"
  shows "angleOfAttack (params (loop time st)) = 2 \<and>
         velocity (params (loop time st)) = max 0 (approachRegulated (velocity (params st)) - 2.5) \<and>
         (if velocity (params (loop time st)) = 0
          then \<not> isLanding (loop time st) \<and> landingStatus (loop time st) = ''''
          else isLanding (loop time st) \<and> landingStatus (loop time st) = ''TOUCHDOWN / BRAKING'')"
  using assms by (simp add: loop_def Let_def landingUpdater_touchdown)

text \<open>At 100 m/s the frame yields 100 - 0.4 - 2.5 and landing goes on; at 2 m/s it yields 0
  and landing ends.\<close>

theorem autoland_touchdown_witness:
  "angleOfAttack (params (loop 16 touchdownApp)) = 2 \<and>
   velocity (params (loop 16 touchdownApp)) = 97.1 \<and>
   isLanding (loop 16 touchdownApp) \<and>
   landingStatus (loop 16 touchdownApp) = ''TOUCHDOWN / BRAKING'' \<and>
   velocity (params (loop 16 rolloutApp)) = 0 \<and>
   \<not> isLanding (loop 16 rolloutApp) \<and>
   landingStatus (loop 16 rolloutApp) = ''''"
proof -
  have h1: "isLanding touchdownApp" "\<not> isPaused touchdownApp" "altitude touchdownApp \<le> 0.5"
    by (simp_all add: touchdownApp_def initialApp_def)
  have h2: "isLanding rolloutApp" "\<not> isPaused rolloutApp" "altitude rolloutApp \<le> 0.5"
    by (simp_all add: rolloutApp_def initialApp_def)
  have v1: "max 0 (approachRegulated (velocity (params touchdownApp)) - 2.5) = 97.1"
    by (simp add: touchdownApp_def initialApp_def approachRegulated_def)
  have v2: "max 0 (approachRegulated (velocity (params rolloutApp)) - 2.5) = 0"
    by (simp add: rolloutApp_def initialApp_def approachRegulated_def)
  show ?thesis
    using autoland_touchdown [OF h1, of 16] autoland_touchdown [OF h2, of 16]
    unfolding v1 v2 by simp
qed

section \<open>Auto-mission phases\<close>

text \<open>
  Claim C7. One firing of the auto-mission interval (auto-mission on, not paused, not
  landing): below 50 m the velocity grows by 1.5, capped at 650, and the angle of attack
  becomes 12 only if the aircraft is flying; from 50 m to below 9900 m the velocity grows
  by 1 while it is below 700 / 3.6, the angle of attack is 12 and altitude hold is switched
  off; from 9900 m on the velocity moves a tenth of the way to 700 / 3.6 and altitude hold
  is switched on.
\<close>

theorem auto_mission_phases:
  assumes "autoThrottle st" and "\<not> isPaused st" and "\<not> isLanding st"
  shows "(altitude st < 50 \<longrightarrow>
            velocity (params (autoMissionTick st)) = min (velocity (params st) + 1.5) 650 \<and>
            angleOfAttack (params (autoMissionTick st)) =
              (if isFlying (results (params st) (altitude st)) then 12 else angleOfAttack (params st)) \<and>
            isAltHold (autoMissionTick st) = isAltHold st) \<and>
         (50 \<le> altitude st \<and> altitude st < 9900 \<longrightarrow>
            velocity (params (autoMissionTick st)) =
              (if velocity (params st) < 700 / 3.6 then velocity (params st) + 1 else velocity (params st)) \<and>
            angleOfAttack (params (autoMissionTick st)) = 12 \<and>
            \<not> isAltHold (autoMissionTick st)) \<and>
         (9900 \<le> altitude st \<longrightarrow>
            velocity (params (autoMissionTick st)) =
              velocity (params st) + (700 / 3.6 - velocity (params st)) * 0.1 \<and>
            angleOfAttack (params (autoMissionTick st)) = angleOfAttack (params st) \<and>
            isAltHold (autoMissionTick st))"
  using assms by (simp add: autoMissionTick_def Let_def MAX_VELOCITY_def)

text \<open>One state in each phase: on the runway at rest, climbing through 5000 m with the
  hold on, and at 9950 m.\<close>

theorem auto_mission_phases_witness:
  "velocity (params (autoMissionTick takeoffRollApp)) = 1.5 \<and>
   angleOfAttack (params (autoMissionTick takeoffRollApp)) = 4 \<and>
   velocity (params (autoMissionTick climbApp)) = 101 \<and>
   angleOfAttack (params (autoMissionTick climbApp)) = 12 \<and>
   \<not> isAltHold (autoMissionTick climbApp) \<and>
   velocity (params (autoMissionTick cruiseApp)) = 100 + (700 / 3.6 - 100) * 0.1 \<and>
   isAltHold (autoMissionTick cruiseApp)"
  using auto_mission_phases [of takeoffRollApp] auto_mission_phases [of climbApp]
        auto_mission_phases [of cruiseApp]
  by (simp add: takeoffRollApp_def climbApp_def cruiseApp_def initialApp_def initialParams_def
                results_def Let_def GRAVITY_def)

section \<open>Lift coefficient beyond the stall angle\<close>

lemma thinAirfoilSlope_pos: "0 < thinAirfoilSlope"
  by (simp add: thinAirfoilSlope_def)

lemma baseCl_nonneg: "0 \<le> baseCl wt"
  by (simp add: baseCl_def)

lemma liftCoefficient_velocity: "liftCoefficient (p\<lparr> velocity := v \<rparr>) = liftCoefficient p"
  by (simp add: liftCoefficient_def Let_def)

lemma liftCoefficient_post_stall:
  assumes "16 < a" and "a < 21"
  shows "liftCoefficient (p\<lparr> angleOfAttack := a \<rparr>) =
           (a * thinAirfoilSlope + baseCl (wingType p)) * (4.2 - 0.2 * a)"
    and "0 < liftCoefficient (p\<lparr> angleOfAttack := a \<rparr>)"
proof -
  have f: "max 0 (1 - (a - 16) * 0.2) = 4.2 - 0.2 * a"
    using assms by (simp add: algebra_simps)
  have pos1: "0 < a * thinAirfoilSlope + baseCl (wingType p)"
    using assms thinAirfoilSlope_pos baseCl_nonneg [of "wingType p"]
    by (simp add: add_pos_nonneg)
  have pos2: "0 < 4.2 - 0.2 * a" using assms by simp
  have pos: "0 < (a * thinAirfoilSlope + baseCl (wingType p)) * (4.2 - 0.2 * a)"
    using pos1 pos2 by (rule mult_pos_pos)
  have raw: "2 * pi * (a * pi / 180) = a * thinAirfoilSlope"
    by (simp add: thinAirfoilSlope_def)
  have "liftCoefficient (p\<lparr> angleOfAttack := a \<rparr>) =
          max 0 ((2 * pi * (a * pi / 180) + baseCl (wingType p)) * max 0 (1 - (a - 16) * 0.2))"
    using assms(1) by (simp add: liftCoefficient_def Let_def)
  also have "\<dots> = max 0 ((a * thinAirfoilSlope + baseCl (wingType p)) * (4.2 - 0.2 * a))"
    by (simp only: f raw)
  finally have "liftCoefficient (p\<lparr> angleOfAttack := a \<rparr>) =
          max 0 ((a * thinAirfoilSlope + baseCl (wingType p)) * (4.2 - 0.2 * a))" .
  with pos show "liftCoefficient (p\<lparr> angleOfAttack := a \<rparr>) =
           (a * thinAirfoilSlope + baseCl (wingType p)) * (4.2 - 0.2 * a)"
    by simp
  with pos show "0 < liftCoefficient (p\<lparr> angleOfAttack := a \<rparr>)" by simp
qed

lemma liftCoefficient_deep_stall:
  assumes "21 \<le> a"
  shows "liftCoefficient (p\<lparr> angleOfAttack := a \<rparr>) = 0"
proof -
  have f: "max 0 (1 - (a - 16) * 0.2) = 0"
    using assms by (simp add: algebra_simps)
  show ?thesis using assms by (simp add: liftCoefficient_def Let_def f)
qed

lemma post_stall_strict:
  assumes "16 < a1" and "a1 < a2" and "a1 < 21"
  shows "liftCoefficient (p\<lparr> angleOfAttack := a2 \<rparr>) < liftCoefficient (p\<lparr> angleOfAttack := a1 \<rparr>)"
proof (cases "a2 < 21")
  case False
  then have "liftCoefficient (p\<lparr> angleOfAttack := a2 \<rparr>) = 0"
    by (simp add: liftCoefficient_deep_stall)
  with liftCoefficient_post_stall(2) [OF assms(1,3), of p] show ?thesis by simp
next
  case True
  define K where "K = thinAirfoilSlope"
  define b where "b = baseCl (wingType p)"
  have K: "0 < K" and b: "0 \<le> b"
    by (simp_all add: K_def b_def thinAirfoilSlope_pos baseCl_nonneg)
  have a2: "16 < a2" using assms by simp
  have diff: "(a1 * K + b) * (4.2 - 0.2 * a1) - (a2 * K + b) * (4.2 - 0.2 * a2) =
              (a2 - a1) * (K * (0.2 * (a1 + a2) - 4.2) + 0.2 * b)"
    by (simp add: field_simps)
  have "0 < 0.2 * (a1 + a2) - 4.2" using assms a2 by simp
  then have "0 < K * (0.2 * (a1 + a2) - 4.2)" using K by simp
  then have "0 < K * (0.2 * (a1 + a2) - 4.2) + 0.2 * b" using b by simp
  moreover have "0 < a2 - a1" using assms by simp
  ultimately have "0 < (a2 - a1) * (K * (0.2 * (a1 + a2) - 4.2) + 0.2 * b)"
    by (simp only: mult_pos_pos)
  with diff have "(a2 * K + b) * (4.2 - 0.2 * a2) < (a1 * K + b) * (4.2 - 0.2 * a1)"
    by simp
  then show ?thesis
    by (simp add: liftCoefficient_post_stall(1) [OF assms(1,3)]
                  liftCoefficient_post_stall(1) [OF a2 True] K_def b_def)
qed

text \<open>
  Claim C8, as amended. With the other parameters fixed, for angles of attack
  \<open>16 < a1 < a2\<close> with \<open>a1 < 21\<close> the lift coefficient at \<open>a2\<close> is strictly below the
  one at \<open>a1\<close>; and at every angle of at least 21 degrees the lift coefficient is 0, for
  every wing type (so also for the baseline offset 0.45).
\<close>

theorem post_stall_decay:
  "(16 < a1 \<and> a1 < a2 \<and> a1 < 21 \<longrightarrow>
      liftCoefficient (p\<lparr> angleOfAttack := a2 \<rparr>) < liftCoefficient (p\<lparr> angleOfAttack := a1 \<rparr>)) \<and>
   (21 \<le> a1 \<longrightarrow> liftCoefficient (p\<lparr> angleOfAttack := a1 \<rparr>) = 0)"
  using post_stall_strict [of a1 a2 p] liftCoefficient_deep_stall [of a1 p] by blast

theorem post_stall_decay_witness:
  "liftCoefficient (initialParams\<lparr> angleOfAttack := 20 \<rparr>)
     < liftCoefficient (initialParams\<lparr> angleOfAttack := 17 \<rparr>) \<and>
   liftCoefficient (initialParams\<lparr> angleOfAttack := 21 \<rparr>) = 0 \<and>
   baseCl (wingType initialParams) = 0.45"
  using post_stall_decay [of 17 20 initialParams] post_stall_decay [of 21 22 initialParams]
  by (simp add: initialParams_def baseCl_def)

text \<open>The claim as stated fails on the flat part: 21 and 22 degrees are both above 16 and
  within the slider's range, and the lift coefficient is 0 at both.\<close>

theorem post_stall_flat_counterexample:
  "(16::real) < 21 \<and> (21::real) < 22 \<and>
   liftCoefficient (initialParams\<lparr> angleOfAttack := 21 \<rparr>) = 0 \<and>
   liftCoefficient (initialParams\<lparr> angleOfAttack := 22 \<rparr>) = 0 \<and>
   \<not> liftCoefficient (initialParams\<lparr> angleOfAttack := 22 \<rparr>)
        < liftCoefficient (initialParams\<lparr> angleOfAttack := 21 \<rparr>)"
  by (simp add: liftCoefficient_deep_stall)


section \<open>The dashboard's lift curve\<close>

lemma liftForce_results:
  "liftForce (results p alt) =
     0.5 * currentAirDensity alt * (velocity p + headWind p) ^ 2 * (wingSpan p * chordLength p)
       * liftCoefficient p"
  by (simp add: results_def Let_def)

lemma currentAirDensity_ground: "currentAirDensity 0 = 1.225"
  by (simp add: currentAirDensity_def SEA_LEVEL_AIR_DENSITY_def)

lemma Math_round_180: "Math_round 180 = 180"
  by (simp add: Math_round_def)

lemma generateChartData_samples:
  "generateChartData p =
     map (\<lambda>v. \<lparr> speed = Math_round (real v * 3.6), lift = Math_round (chartLift p (real v)) \<rparr>)
       sampleSpeeds"
  by (simp add: generateChartData_def sampleSpeeds_def)

lemma chartLift_below_stall:
  assumes "angleOfAttack p \<le> 16"
  shows "chartLift p v =
           0.5 * airDensity p * (v + headWind p) ^ 2 * (wingSpan p * chordLength p) * liftCoefficient p"
  using assms by (simp add: chartLift_def liftCoefficient_def Let_def)

lemma chartLift_is_model_lift:
  assumes "angleOfAttack p \<le> 16" and "airDensity p = currentAirDensity alt"
  shows "chartLift p v = liftForce (results (p\<lparr> velocity := v \<rparr>) alt)"
  using assms by (simp add: chartLift_below_stall liftForce_results liftCoefficient_velocity)

lemma liftForce_stalled: "liftForce (results (stalledParams\<lparr> velocity := 50 \<rparr>) 0) = 0"
  by (simp add: liftForce_results liftCoefficient_def stalledParams_def initialParams_def Let_def)

lemma chartLift_stalled_big: "100000 \<le> chartLift stalledParams 50"
proof -
  have "0 \<le> 2 * pi * (21 * pi / 180)" by simp
  then have "0.45 * 0.25 \<le> (2 * pi * (21 * pi / 180) + 0.45) * (0.25::real)"
    by simp
  then have cl: "0.1125 \<le> max 0 ((2 * pi * (21 * pi / 180) + 0.45) * (1 - (21 - 16) * 0.15))"
    by simp
  have "chartLift stalledParams 50 =
          0.5 * 1.225 * 50 ^ 2 * (79.75 * 10.6)
            * max 0 ((2 * pi * (21 * pi / 180) + 0.45) * (1 - (21 - 16) * 0.15))"
    by (simp add: chartLift_def stalledParams_def initialParams_def Let_def baseCl_def
                  SEA_LEVEL_AIR_DENSITY_def)
  moreover have "100000 \<le> 0.5 * 1.225 * 50 ^ 2 * (79.75 * 10.6) * (0.1125::real)" by simp
  moreover have "(0::real) \<le> 0.5 * 1.225 * 50 ^ 2 * (79.75 * 10.6)" by simp
  ultimately show ?thesis
    using cl mult_left_mono [of "0.1125"
        "max 0 ((2 * pi * (21 * pi / 180) + 0.45) * (1 - (21 - 16) * 0.15))"
        "0.5 * 1.225 * 50 ^ 2 * (79.75 * 10.6)"]
    by linarith
qed

lemma chartLift_level: "chartLift levelParams 50 = 582498.984375"
  by (simp add: chartLift_def levelParams_def initialParams_def Let_def baseCl_def
                SEA_LEVEL_AIR_DENSITY_def)

lemma liftForce_level_airborne:
  "liftForce (results (levelParams\<lparr> velocity := 50 \<rparr>) 5000) = 392295.234375"
  by (simp add: liftForce_results liftCoefficient_def levelParams_def initialParams_def Let_def
        baseCl_def currentAirDensity_def SEA_LEVEL_AIR_DENSITY_def)

text \<open>
  Claim C5. The dashboard's curve is not the model's lift force at the sampled velocities:
  its copy of the formula has the stall factor \<open>1 - (aoa - 16) * 0.15\<close> where the model has
  \<open>1 - (aoa - 16) * 0.2\<close>, and it reads the field \<^verbatim>\<open>params.airDensity\<close>, which no transition
  writes, where the model reads the air density at the current altitude. With the angle of
  attack at 21 degrees, on the ground (where the two air densities are equal), the model's
  lift force at 50 m/s is 0 and the point of the curve at 50 m/s (180 km/h) has a lift of
  at least 100000. With the angle of attack at 0, at an altitude of 5000 m, the model's
  lift force at 50 m/s is 392295.234375 and the point of the curve has the lift 582499.
  (Below the stall angle and with equal air densities the unrounded value of the curve is
  the model's lift force, lemma \<open>chartLift_is_model_lift\<close>.)
\<close>

theorem dashboard_curve_divergence:
  "airDensity stalledParams = currentAirDensity 0 \<and>
   speed (generateChartData stalledParams ! 1) = 180 \<and>
   liftForce (results (stalledParams\<lparr> velocity := 50 \<rparr>) 0) = 0 \<and>
   100000 \<le> lift (generateChartData stalledParams ! 1) \<and>
   angleOfAttack levelParams = 0 \<and>
   speed (generateChartData levelParams ! 1) = 180 \<and>
   liftForce (results (levelParams\<lparr> velocity := 50 \<rparr>) 5000) = 392295.234375 \<and>
   lift (generateChartData levelParams ! 1) = 582499"
proof -
  have c1: "airDensity stalledParams = currentAirDensity 0"
    by (simp add: currentAirDensity_ground stalledParams_def initialParams_def SEA_LEVEL_AIR_DENSITY_def)
  have c2: "speed (generateChartData stalledParams ! 1) = 180"
       "speed (generateChartData levelParams ! 1) = 180"
    by (simp_all add: generateChartData_samples sampleSpeeds_def Math_round_180)
  have "100000 \<le> Math_round (chartLift stalledParams 50)"
    using chartLift_stalled_big unfolding Math_round_def by linarith
  then have c4: "100000 \<le> lift (generateChartData stalledParams ! 1)"
    by (simp add: generateChartData_samples sampleSpeeds_def)
  have c5: "angleOfAttack levelParams = 0"
    by (simp add: levelParams_def)
  have "Math_round (chartLift levelParams 50) = 582499"
    unfolding chartLift_level by (simp add: Math_round_def)
  then have c6: "lift (generateChartData levelParams ! 1) = 582499"
    by (simp add: generateChartData_samples sampleSpeeds_def)
  show ?thesis using c1 c2 liftForce_stalled c4 c5 liftForce_level_airborne c6 by blast
qed

section \<open>The Cessna in altitude hold\<close>

lemma cessna_density: "currentAirDensity (altitude cessnaHoldApp) = 1.145"
  by (simp add: cessnaHoldApp_def currentAirDensity_def SEA_LEVEL_AIR_DENSITY_def Let_def)

lemma cessna_cl: "liftCoefficient (params cessnaHoldApp) = 0.45"
  by (simp add: cessnaHoldApp_def liftCoefficient_def Let_def baseCl_def)

lemma cessna_flying: "isFlying (results (params cessnaHoldApp) (altitude cessnaHoldApp))"
  unfolding results_def Let_def cessna_density cessna_cl
  by (simp add: cessnaHoldApp_def GRAVITY_def)

lemma cessna_guard:
  "isAltHold cessnaHoldApp" "\<not> isLanding cessnaHoldApp" "\<not> isPaused cessnaHoldApp"
  "10 < velocity (params cessnaHoldApp) + headWind (params cessnaHoldApp)"
  "wingType (params cessnaHoldApp) = Cambered" "angleOfAttack (params cessnaHoldApp) = 0"
  by (simp_all add: cessnaHoldApp_def initialApp_def)

lemma cessna_targetCl:
  "weight (params cessnaHoldApp) * GRAVITY / targetClDenominator cessnaHoldApp = 10895.18815 / 25190"
  unfolding targetClDenominator_def Let_def cessna_density
  by (simp add: cessnaHoldApp_def GRAVITY_def)

lemma degrees_pos: "0 < x \<Longrightarrow> 0 < (x / (2 * pi)) * (180 / pi)"
  by simp

lemma degrees_neg: "x < 0 \<Longrightarrow> (x / (2 * pi)) * (180 / pi) < 0"
  by (simp add: mult_neg_pos divide_neg_pos)

lemma cessna_code_target: "0 < targetAoADeg cessnaHoldApp"
proof -
  have "targetAoADeg cessnaHoldApp = ((10895.18815 / 25190 - 0.2) / (2 * pi)) * (180 / pi)"
    unfolding targetAoADeg_def Let_def cessna_targetCl by (simp add: cessnaHoldApp_def)
  moreover have "(0::real) < 10895.18815 / 25190 - 0.2" by simp
  ultimately show ?thesis using degrees_pos by presburger
qed

lemma cessna_spec_target: "specTargetAoADeg cessnaHoldApp < 0"
proof -
  have "specTargetAoADeg cessnaHoldApp = ((10895.18815 / 25190 - 0.45) / (2 * pi)) * (180 / pi)"
    unfolding specTargetAoADeg_def Let_def cessna_density
    by (simp add: cessnaHoldApp_def GRAVITY_def baseCl_def)
  moreover have "10895.18815 / 25190 - 0.45 < (0::real)" by simp
  ultimately show ?thesis using degrees_neg by presburger
qed

lemma loop_altitude_hold:
  assumes "isAltHold st" and "\<not> isLanding st" and "\<not> isPaused st"
    and "isFlying (results (params st) (altitude st))"
    and "velocity (params st) + headWind (params st) > 10"
  shows "angleOfAttack (params (loop time st)) =
           angleOfAttack (params st)
             + (min 15 (max (- 5) (targetAoADeg st)) - angleOfAttack (params st)) * 0.02"
  using assms by (simp add: loop_def Let_def altHoldUpdater_def)

lemma cessna_hold_step: "0 < angleOfAttack (params (loop 16 cessnaHoldApp))"
proof -
  have code: "angleOfAttack (params (loop 16 cessnaHoldApp)) =
                min 15 (max (- 5) (targetAoADeg cessnaHoldApp)) * 0.02"
    using loop_altitude_hold [OF cessna_guard(1,2,3) cessna_flying cessna_guard(4), of 16]
    by (simp add: cessna_guard(6))
  have "0 < min 15 (max (- 5) (targetAoADeg cessnaHoldApp))"
    using cessna_code_target by simp
  then show ?thesis by (simp add: code)
qed

section \<open>Denominators and radicands\<close>




































section \<open>Altitude hold\<close>

text \<open>Without autoland, a frame changes the parameters only when the altitude-hold
  branch runs.\<close>

lemma loop_params_unchanged_without_hold:
  assumes "\<not> isLanding st"
    and "\<not> (isAltHold st \<and> isFlying (results (params st) (altitude st))
            \<and> velocity (params st) + headWind (params st) > 10)"
  shows "params (loop time st) = params st"
  using assms by (auto simp: loop_def Let_def)

lemma altitude_hold_airbus:
  assumes "wingType (params st) = Airbus"
  shows "targetAoADeg st = specTargetAoADeg st"
  using assms
  by (simp add: targetAoADeg_def specTargetAoADeg_def targetClDenominator_def Let_def baseCl_def)

lemma loop_altitude_hold_airbus:
  assumes "isAltHold st" and "\<not> isLanding st" and "\<not> isPaused st"
    and "isFlying (results (params st) (altitude st))"
    and "velocity (params st) + headWind (params st) > 10"
    and "wingType (params st) = Airbus"
  shows "angleOfAttack (params (loop time st)) = specAltHoldAoA st"
  using loop_altitude_hold [OF assms(1-5), of time] altitude_hold_airbus [OF assms(6)]
  by (simp add: specAltHoldAoA_def Let_def)

text \<open>
  Claim C3. The frame callback follows the claimed law with one difference: the offset it
  subtracts from the target lift coefficient is 0.45 for the airbus wing and 0.2 for every
  other wing type, not the baseline offset of the wing type (for the airbus wing the two
  agree, lemma \<open>loop_altitude_hold_airbus\<close>). For the cambered Cessna in altitude hold, flying at
  50 m/s with a level angle of attack, the claimed law lowers the angle of attack below 0
  and the frame callback raises it above 0.
\<close>

theorem altitude_hold_offset_divergence:
  "isAltHold cessnaHoldApp \<and> \<not> isLanding cessnaHoldApp \<and> \<not> isPaused cessnaHoldApp \<and>
   isFlying (results (params cessnaHoldApp) (altitude cessnaHoldApp)) \<and>
   10 < velocity (params cessnaHoldApp) + headWind (params cessnaHoldApp) \<and>
   wingType (params cessnaHoldApp) = Cambered \<and> baseCl Cambered = 0.45 \<and>
   angleOfAttack (params cessnaHoldApp) = 0 \<and>
   specAltHoldAoA cessnaHoldApp < 0 \<and>
   0 < angleOfAttack (params (loop 16 cessnaHoldApp)) \<and>
   angleOfAttack (params (loop 16 cessnaHoldApp)) \<noteq> specAltHoldAoA cessnaHoldApp"
proof -
  have b: "baseCl Cambered = 0.45" by (simp add: baseCl_def)
  have "min 15 (max (- 5) (specTargetAoADeg cessnaHoldApp)) < 0"
    using cessna_spec_target by simp
  then have s: "specAltHoldAoA cessnaHoldApp < 0"
    by (simp add: specAltHoldAoA_def Let_def cessna_guard(6))
  have d: "angleOfAttack (params (loop 16 cessnaHoldApp)) \<noteq> specAltHoldAoA cessnaHoldApp"
    using s cessna_hold_step by simp
  show ?thesis using cessna_guard b cessna_flying cessna_hold_step s d by blast
qed

section \<open>Frame condition of the autopilot updates\<close>

lemma loop_params_frame:
  "params (loop time st) =
     (params st)\<lparr> velocity := velocity (params (loop time st)),
                   angleOfAttack := angleOfAttack (params (loop time st)) \<rparr>"
  by (simp add: loop_def Let_def landingUpdater_def altHoldUpdater_def)

lemma loop_velocity_no_landing:
  "\<not> isLanding st \<Longrightarrow> velocity (params (loop time st)) = velocity (params st)"
  by (simp add: loop_def Let_def altHoldUpdater_def)

lemma autoMissionTick_params_frame:
  "params (autoMissionTick st) =
     (params st)\<lparr> velocity := velocity (params (autoMissionTick st)),
                   angleOfAttack := angleOfAttack (params (autoMissionTick st)) \<rparr>"
  by (simp add: autoMissionTick_def Let_def)

lemma frame_fields:
  assumes "p' = p\<lparr> velocity := v, angleOfAttack := a \<rparr>"
  shows "weight p' = weight p \<and> wingSpan p' = wingSpan p \<and> chordLength p' = chordLength p \<and>
         headWind p' = headWind p \<and> airDensity p' = airDensity p \<and> wingType p' = wingType p"
  using assms by simp

text \<open>
  Claim C10. Every frame of the render loop and every firing of the auto-mission interval
  leaves weight, wing span, chord length, head wind, air density and wing type as they
  were: the autoland and auto-mission updates write velocity and angle of attack only, and
  a frame without autoland (so also every altitude-hold frame) leaves the velocity as it
  was too.
\<close>

theorem autopilot_frame_condition:
  "(weight (params (loop time st)) = weight (params st) \<and>
    wingSpan (params (loop time st)) = wingSpan (params st) \<and>
    chordLength (params (loop time st)) = chordLength (params st) \<and>
    headWind (params (loop time st)) = headWind (params st) \<and>
    airDensity (params (loop time st)) = airDensity (params st) \<and>
    wingType (params (loop time st)) = wingType (params st)) \<and>
   (\<not> isLanding st \<longrightarrow> velocity (params (loop time st)) = velocity (params st)) \<and>
   (weight (params (autoMissionTick st)) = weight (params st) \<and>
    wingSpan (params (autoMissionTick st)) = wingSpan (params st) \<and>
    chordLength (params (autoMissionTick st)) = chordLength (params st) \<and>
    headWind (params (autoMissionTick st)) = headWind (params st) \<and>
    airDensity (params (autoMissionTick st)) = airDensity (params st) \<and>
    wingType (params (autoMissionTick st)) = wingType (params st))"
  using frame_fields [OF loop_params_frame [of time st]]
        frame_fields [OF autoMissionTick_params_frame [of st]]
        loop_velocity_no_landing [of st time]
  by blast

text \<open>The Cessna's altitude-hold frame changes the angle of attack and keeps the velocity
  of 50 and the weight of 1111.\<close>

theorem autopilot_frame_condition_witness:
  "\<not> isLanding cessnaHoldApp \<and>
   0 < angleOfAttack (params (loop 16 cessnaHoldApp)) \<and>
   angleOfAttack (params cessnaHoldApp) = 0 \<and>
   velocity (params (loop 16 cessnaHoldApp)) = 50 \<and>
   weight (params (loop 16 cessnaHoldApp)) = 1111 \<and>
   wingType (params (loop 16 cessnaHoldApp)) = Cambered"
proof -
  have v: "velocity (params cessnaHoldApp) = 50" "weight (params cessnaHoldApp) = 1111"
    by (simp_all add: cessnaHoldApp_def)
  show ?thesis
    using autopilot_frame_condition [of 16 cessnaHoldApp] cessna_guard cessna_hold_step v
    by simp
qed


end
